theory Spec2Isabelle
  imports Main
begin

section \<open>Python strings\<close>

text \<open>
  A Python \<open>str\<close> is a sequence of Unicode code points and is modelled as the list of
  these numbers, so that \<open>len\<close> is \<open>length\<close>. \<open>str\<close> turns a literal of ASCII
  characters into such a list, \<open>ch\<close> one character into its code point.
\<close>

type_synonym pystr = "nat list"

definition str :: "string \<Rightarrow> pystr" where
  "str s = map of_char s"

definition ch :: "char \<Rightarrow> nat" where
  "ch c = of_char c"

text \<open>
  What Python knows of the characters beyond ASCII comes from the Unicode tables built
  into the interpreter, and these are a parameter of the model. \<open>tab_isspace\<close> is the
  test behind \<open>str.strip\<close>, \<open>str.split\<close> and the class \<open>\s\<close>; \<open>tab_isdigit\<close> the
  one behind \<open>str.isdigit\<close>; \<open>tab_isdecimal\<close> the one behind the class \<open>\d\<close>;
  \<open>tab_isalpha\<close> the one behind \<open>str.isalpha\<close>. \<open>tab_upper\<close> gives the upper-case
  form of one character, which can be several characters long. \<open>tab_lower\<close> gives the
  lower-case form of a whole string, since that of a character can depend on its
  neighbours. On the ASCII characters the classes and the case conversions are fixed
  below, and the tables are consulted for the other characters only.
\<close>

record unicode_tables =
  tab_isspace :: "nat \<Rightarrow> bool"
  tab_isdigit :: "nat \<Rightarrow> bool"
  tab_isdecimal :: "nat \<Rightarrow> bool"
  tab_isalpha :: "nat \<Rightarrow> bool"
  tab_lower :: "pystr \<Rightarrow> pystr"
  tab_upper :: "nat \<Rightarrow> pystr"

definition ascii_digit :: "nat \<Rightarrow> bool" where
  "ascii_digit c \<longleftrightarrow> 48 \<le> c \<and> c \<le> 57"

definition ascii_alpha :: "nat \<Rightarrow> bool" where
  "ascii_alpha c \<longleftrightarrow> (65 \<le> c \<and> c \<le> 90) \<or> (97 \<le> c \<and> c \<le> 122)"

definition isspace :: "unicode_tables \<Rightarrow> nat \<Rightarrow> bool" where
  "isspace u c \<longleftrightarrow>
     (if c < 128 then (9 \<le> c \<and> c \<le> 13) \<or> (28 \<le> c \<and> c \<le> 32) else tab_isspace u c)"

definition isdigit :: "unicode_tables \<Rightarrow> nat \<Rightarrow> bool" where
  "isdigit u c \<longleftrightarrow> (if c < 128 then ascii_digit c else tab_isdigit u c)"

definition isdecimal :: "unicode_tables \<Rightarrow> nat \<Rightarrow> bool" where
  "isdecimal u c \<longleftrightarrow> (if c < 128 then ascii_digit c else tab_isdecimal u c)"

definition isalpha :: "unicode_tables \<Rightarrow> nat \<Rightarrow> bool" where
  "isalpha u c \<longleftrightarrow> (if c < 128 then ascii_alpha c else tab_isalpha u c)"

definition lower_char :: "nat \<Rightarrow> nat" where
  "lower_char c = (if 65 \<le> c \<and> c \<le> 90 then c + 32 else c)"

definition upper_char :: "nat \<Rightarrow> nat" where
  "upper_char c = (if 97 \<le> c \<and> c \<le> 122 then c - 32 else c)"

definition str_lower :: "unicode_tables \<Rightarrow> pystr \<Rightarrow> pystr" where
  "str_lower u s = (if list_all (\<lambda>c. c < 128) s then map lower_char s else tab_lower u s)"

definition str_upper :: "unicode_tables \<Rightarrow> pystr \<Rightarrow> pystr" where
  "str_upper u s = concat (map (\<lambda>c. if c < 128 then [upper_char c] else tab_upper u c) s)"


text \<open>\<open>s.strip()\<close>: whitespace removed at both ends.\<close>

definition str_strip :: "unicode_tables \<Rightarrow> pystr \<Rightarrow> pystr" where
  "str_strip u s = rev (dropWhile (isspace u) (rev (dropWhile (isspace u) s)))"

text \<open>\<open>s.isdigit()\<close> is false on the empty string.\<close>

definition str_isdigit :: "unicode_tables \<Rightarrow> pystr \<Rightarrow> bool" where
  "str_isdigit u s \<longleftrightarrow> s \<noteq> [] \<and> list_all (isdigit u) s"

definition str_startswith :: "pystr \<Rightarrow> pystr \<Rightarrow> bool" where
  "str_startswith s p \<longleftrightarrow> take (length p) s = p"

definition str_endswith :: "pystr \<Rightarrow> pystr \<Rightarrow> bool" where
  "str_endswith s p \<longleftrightarrow> length p \<le> length s \<and> drop (length s - length p) s = p"

text \<open>\<open>sub in s\<close>: \<open>sub\<close> occurs in \<open>s\<close> as a contiguous substring.\<close>

fun str_contains :: "pystr \<Rightarrow> pystr \<Rightarrow> bool" where
  "str_contains sub [] = (sub = [])"
| "str_contains sub (c # cs) = (str_startswith (c # cs) sub \<or> str_contains sub cs)"

text \<open>
  \<open>re.sub(r'[...]', repl, s)\<close> for a pattern that is one character class: every
  character of the class is replaced by \<open>repl\<close>, scanning from the left.
\<close>

fun re_sub_class :: "(nat \<Rightarrow> bool) \<Rightarrow> pystr \<Rightarrow> pystr \<Rightarrow> pystr" where
  "re_sub_class cls repl [] = []"
| "re_sub_class cls repl (c # cs) =
     (if cls c then repl @ re_sub_class cls repl cs else c # re_sub_class cls repl cs)"


text \<open>
  \<open>re.sub(r'^[...]+', '', s)\<close>: the pattern is anchored at the start of the string, so
  the one match is the longest leading run of characters of the class.
\<close>

definition re_sub_leading :: "(nat \<Rightarrow> bool) \<Rightarrow> pystr \<Rightarrow> pystr" where
  "re_sub_leading cls s = dropWhile cls s"

text \<open>\<open>s.split(sep)\<close> for a one-character separator; the result is never empty.\<close>

fun str_split :: "nat \<Rightarrow> pystr \<Rightarrow> pystr list" where
  "str_split sep [] = [[]]"
| "str_split sep (c # cs) =
     (if c = sep then [] # str_split sep cs
      else (case str_split sep cs of w # ws \<Rightarrow> (c # w) # ws | [] \<Rightarrow> [[c]]))"

text \<open>
  \<open>s.split(sep, 1)[1]\<close>: the text after the first separator; \<open>None\<close> is the
  \<open>IndexError\<close> raised when \<open>s\<close> holds no separator.
\<close>

definition split_once_second :: "nat \<Rightarrow> pystr \<Rightarrow> pystr option" where
  "split_once_second sep s =
     (case dropWhile (\<lambda>c. c \<noteq> sep) s of [] \<Rightarrow> None | _ # r \<Rightarrow> Some r)"

text \<open>\<open>s.split()\<close>: the maximal runs of non-whitespace characters.\<close>

fun str_words :: "unicode_tables \<Rightarrow> pystr \<Rightarrow> pystr list" where
  "str_words u [] = []"
| "str_words u (c # cs) =
     (if isspace u c then str_words u cs
      else (case cs of
              [] \<Rightarrow> [[c]]
            | d # _ \<Rightarrow> if isspace u d then [c] # str_words u cs
                      else (case str_words u cs of w # ws \<Rightarrow> (c # w) # ws | [] \<Rightarrow> [[c]])))"

text \<open>\<open>s.replace(a, b)\<close> for one-character \<open>a\<close> and \<open>b\<close>.\<close>

definition str_replace :: "nat \<Rightarrow> nat \<Rightarrow> pystr \<Rightarrow> pystr" where
  "str_replace a b s = map (\<lambda>c. if c = a then b else c) s"

text \<open>The decimal text of a non-negative \<open>int\<close>, as an f-string renders it.\<close>

fun show_nat :: "nat \<Rightarrow> pystr" where
  "show_nat n =
     (if n < 10 then [str ''0123456789'' ! n]
      else show_nat (n div 10) @ [str ''0123456789'' ! (n mod 10)])"

text \<open>\<open>xs[:n]\<close>: a negative \<open>n\<close> counts from the end.\<close>

definition py_slice_to :: "int \<Rightarrow> 'a list \<Rightarrow> 'a list" where
  "py_slice_to n xs = (if 0 \<le> n then take (nat n) xs else take (length xs - nat (- n)) xs)"

section \<open>Exceptions and floats\<close>

datatype pyerr = KeyError string | IndexError | AttributeError | ProviderError | OSError | JSONDecodeError

text \<open>
  Python's \<open>float\<close> is kept abstract: the program is modelled over any carrier \<open>'f\<close>
  with the operations the source uses. \<open>float_of_str\<close> is \<open>float(s)\<close>, with \<open>None\<close>
  for the \<open>ValueError\<close>; \<open>format_1f\<close> is the format \<open>:.1f\<close>.
\<close>

record 'f float_ops =
  float_of_str :: "pystr \<Rightarrow> 'f option"
  float_of_int :: "int \<Rightarrow> 'f"
  float_add :: "'f \<Rightarrow> 'f \<Rightarrow> 'f"
  float_div :: "'f \<Rightarrow> 'f \<Rightarrow> 'f"
  float_le :: "'f \<Rightarrow> 'f \<Rightarrow> bool"
  format_1f :: "'f \<Rightarrow> pystr"

text \<open>A Python number that is an \<open>int\<close> or a \<open>float\<close>.\<close>

datatype 'f pynum = PyInt int | PyFloat 'f

definition to_float :: "'f float_ops \<Rightarrow> 'f pynum \<Rightarrow> 'f" where
  "to_float ops x = (case x of PyInt i \<Rightarrow> float_of_int ops i | PyFloat v \<Rightarrow> v)"

text \<open>\<open>t += v\<close> for a float \<open>v\<close>, and \<open>t / n\<close> for an int \<open>n\<close>.\<close>

definition py_add_float :: "'f float_ops \<Rightarrow> 'f pynum \<Rightarrow> 'f \<Rightarrow> 'f pynum" where
  "py_add_float ops t v = PyFloat (float_add ops (to_float ops t) v)"

definition py_truediv :: "'f float_ops \<Rightarrow> 'f pynum \<Rightarrow> nat \<Rightarrow> 'f pynum" where
  "py_truediv ops t n = PyFloat (float_div ops (to_float ops t) (float_of_int ops (int n)))"

section \<open>validators.py\<close>

definition email_local_char :: "nat \<Rightarrow> bool" where
  "email_local_char c \<longleftrightarrow> ascii_alpha c \<or> ascii_digit c \<or> c \<in> set (str ''._%+-'')"

definition email_domain_char :: "nat \<Rightarrow> bool" where
  "email_domain_char c \<longleftrightarrow> ascii_alpha c \<or> ascii_digit c \<or> c \<in> set (str ''.-'')"

text \<open>\<open>[a-zA-Z]{2,}$\<close>: \<open>$\<close> also matches just before a final newline.\<close>

definition email_tld :: "pystr \<Rightarrow> bool" where
  "email_tld t \<longleftrightarrow>
     (let letters = (if t \<noteq> [] \<and> last t = 10 then butlast t else t)
      in 2 \<le> length letters \<and> list_all ascii_alpha letters)"

text \<open>
  \<open>re.match(r'^[a-zA-Z0-9._%+-]+@[a-zA-Z0-9.-]+\.[a-zA-Z]{2,}$', s)\<close>: the local part is
  the leading run of its class (the class has no \<open>@\<close>), and the rest matches when some
  dot splits it into a non-empty domain and a top-level domain.
\<close>

definition re_match_email :: "pystr \<Rightarrow> bool" where
  "re_match_email s \<longleftrightarrow>
     (let local_part = takeWhile email_local_char s; rest = dropWhile email_local_char s
      in local_part \<noteq> [] \<and>
         (case rest of
            [] \<Rightarrow> False
          | c # r \<Rightarrow> c = ch CHR ''@'' \<and>
              list_ex (\<lambda>i. r ! i = ch CHR ''.'' \<and> take i r \<noteq> [] \<and>
                          list_all email_domain_char (take i r) \<and> email_tld (drop (Suc i) r))
                [0..<length r]))"

definition validate_email :: "unicode_tables \<Rightarrow> pystr \<Rightarrow> bool \<times> pystr" where
  "validate_email u email =
     (if email = [] then (False, str ''Email address is required.'')
      else if re_match_email (str_strip u email) then (True, [])
      else (False, str ''Please provide a valid email address (e.g., name@example.com).''))"


text \<open>The class \<open>[\s\-\(\)\+]\<close> of \<open>validate_phone\<close>.\<close>

definition phone_separator :: "unicode_tables \<Rightarrow> nat \<Rightarrow> bool" where
  "phone_separator u c \<longleftrightarrow> isspace u c \<or> c = ch CHR ''-'' \<or> c = ch CHR ''('' \<or> c = ch CHR '')'' \<or> c = ch CHR ''+''"

definition validate_phone :: "unicode_tables \<Rightarrow> pystr \<Rightarrow> bool \<times> pystr" where
  "validate_phone u phone =
     (if phone = [] then (False, str ''Phone number is required.'')
      else let cleaned = re_sub_class (phone_separator u) [] phone in
        if str_isdigit u cleaned \<and> 10 \<le> length cleaned \<and> length cleaned \<le> 15
        then (True, [])
        else (False, str ''Please provide a valid phone number (10-15 digits).''))"

definition validate_experience :: "'f float_ops \<Rightarrow> pystr \<Rightarrow> bool \<times> pystr" where
  "validate_experience ops experience =
     (if experience = [] then (False, str ''Years of experience is required.'')
      else (case float_of_str ops experience of
              None \<Rightarrow> (False, str ''Please provide a valid number for years of experience.'')
            | Some years \<Rightarrow>
                if float_le ops (float_of_int ops 0) years \<and> float_le ops years (float_of_int ops 50)
                then (True, [])
                else (False, str ''Please provide a valid number of years (0-50).'')))"

definition validate_name :: "unicode_tables \<Rightarrow> pystr \<Rightarrow> bool \<times> pystr" where
  "validate_name u nm =
     (if nm = [] \<or> length (str_strip u nm) < 2
      then (False, str ''Please provide your full name (at least 2 characters).'')
      else (True, []))"

definition validate_non_empty :: "unicode_tables \<Rightarrow> pystr \<Rightarrow> pystr \<Rightarrow> bool \<times> pystr" where
  "validate_non_empty u v field_name =
     (if v = [] \<or> length (str_strip u v) = 0 then (False, field_name @ str '' is required.'')
      else (True, []))"

section \<open>config.py\<close>

text \<open>The two settings read from the environment; the defaults are 7 and 5.\<close>

record config =
  MAX_TECHNICAL_QUESTIONS :: int
  MIN_TECHNICAL_QUESTIONS :: int

definition default_config :: config where
  "default_config = \<lparr>MAX_TECHNICAL_QUESTIONS = 7, MIN_TECHNICAL_QUESTIONS = 5\<rparr>"

definition EXIT_KEYWORDS :: "pystr list" where
  "EXIT_KEYWORDS = [str ''exit'', str ''quit'', str ''bye'', str ''goodbye'', str ''stop'', str ''end'',
                    (str ''cancel''), str ''leave'', str ''close'', str ''terminate'']"

datatype ConversationState =
    GREETING | COLLECT_NAME | COLLECT_EMAIL | COLLECT_PHONE | COLLECT_EXPERIENCE
  | COLLECT_POSITION | COLLECT_LOCATION | COLLECT_TECH_STACK | ASK_TECHNICAL_QUESTIONS
  | CONCLUSION | ENDED

section \<open>prompts.py\<close>

text \<open>
  The texts shown to the candidate. The \<open>email\<close> entry of the table is built on every
  call, so its \<open>previous_response.split()[0]\<close> raises \<open>IndexError\<close> for a non-empty
  \<open>previous_response\<close> of whitespace only, whatever the field asked for.
\<close>

definition get_info_collection_prompt :: "unicode_tables \<Rightarrow> pystr \<Rightarrow> pystr \<Rightarrow> pyerr + pystr" where
  "get_info_collection_prompt u field_name previous_response =
     (if previous_response \<noteq> [] \<and> str_words u previous_response = [] then Inl IndexError
      else
        let email_text = str ''Thank you''
              @ (if previous_response \<noteq> [] then str '', '' @ hd (str_words u previous_response) else [])
              @ str ''! Could you please provide your email address?''
        in Inr (if field_name = str ''email'' then email_text
                else if field_name = str ''phone'' then str ''Great! What's the best phone number to reach you?''
                else if field_name = str ''experience'' then str ''Excellent! How many years of professional experience do you have in the tech industry?''
                else if field_name = str ''position'' then str ''Thank you! What position(s) are you interested in applying for?''
                else if field_name = str ''location'' then str ''Perfect! What is your current location (city/region)?''
                else if field_name = str ''tech_stack'' then str ''Now, please tell me about your tech stack. What programming languages, frameworks, databases, and tools are you proficient in?''
                else str ''Please provide your '' @ field_name @ str ''.''))"

definition get_technical_question_intro :: "pystr \<Rightarrow> pystr" where
  "get_technical_question_intro tech_stack_text =
     (str ''Great! Thank you for sharing your information. \<newline>\<newline>Based on your tech stack ('') @ tech_stack_text @ str '') and experience level, I'm now going to ask you some tailored technical questions to assess your expertise. These questions are specifically designed for your background.\<newline>\<newline>Please answer to the best of your ability. Let me prepare your first question...''"

definition get_technical_question_prompt :: "pystr \<Rightarrow> pystr \<Rightarrow> nat \<Rightarrow> nat \<Rightarrow> pystr" where
  "get_technical_question_prompt question_text technology_text question_number total_questions =
     (str ''**Question '') @ show_nat question_number @ str '' of '' @ show_nat total_questions
       @ str ''** ('' @ technology_text @ str ''):\<newline>\<newline>'' @ question_text"

definition get_question_acknowledgment :: "int \<Rightarrow> pystr" where
  "get_question_acknowledgment remaining =
     (if remaining > 0 then str ''Thank you for your answer! Let's move to the next question.''
      else str ''Thank you for your thoughtful answers!'')"

definition get_conclusion_prompt :: "unicode_tables \<Rightarrow> pystr \<Rightarrow> pystr \<Rightarrow> pystr \<Rightarrow> pystr" where
  "get_conclusion_prompt u candidate_name decision message =
     (if str_contains (str ''SCREEN IN'') (str_upper u decision) then
        [0xF0, 0x178, 0x17D, 0x2030] @ str '' **Congratulations, '' @ candidate_name @ str ''!**\<newline>\<newline>'' @ message @ str ''\<newline>\<newline>Our HR team will review your profile and contact you within 2-3 business days to schedule the next round of interviews.\<newline>\<newline>Thank you for your time and thoughtful responses. We're excited about the possibility of having you join our team!\<newline>\<newline>**What happens next:**\<newline>'' @ [0xE2, 0x153, 0x2026] @ str '' HR team reviews your screening results\<newline>'' @ [0xE2, 0x153, 0x2026] @ str '' You'll receive an email/call for the next interview round\<newline>'' @ [0xE2, 0x153, 0x2026] @ str '' Keep an eye on your inbox!\<newline>\<newline>Good luck! '' @ [0xF0, 0x178, 0x161, 0x20AC]
      else
        (str ''Thank you, '') @ candidate_name @ str ''.\<newline>\<newline>'' @ message @ str ''\<newline>\<newline>We appreciate the time you took to complete this screening. While you haven't met the criteria for this particular role at this time, we encourage you to:\<newline>- Continue building your skills\<newline>- Apply for other positions that match your experience\<newline>- Reapply in the future as you gain more experience\<newline>\<newline>We wish you all the best in your job search!\<newline>\<newline>**The conversation has ended.** You may close this window.'')"

definition get_fallback_prompt :: pystr where
  "get_fallback_prompt = str ''I didn't quite understand that. Could you please rephrase or provide the requested information? \<newline>I'm here to help you through the screening process.''"

definition get_exit_confirmation :: pystr where
  "get_exit_confirmation = str ''I understand you'd like to end the session. Thank you for your time! \<newline>If you'd like to complete the screening process later, feel free to start a new conversation. \<newline>Have a great day!''"

section \<open>chatbot.py: the session\<close>

text \<open>
  The dictionaries of the engine have fixed keys, each holding values of one type, and
  are modelled as records. A key of \<open>candidate_data\<close> that has not been stored yet is
  \<open>None\<close>; reading it with \<open>[]\<close> raises \<open>KeyError\<close>.
\<close>

record tech_question =
  technology :: pystr
  question :: pystr

record qa_entry = tech_question +
  answer :: pystr
  evaluation :: "pystr option"
  score :: "pystr option"

record candidate_data =
  name :: "pystr option"
  email :: "pystr option"
  phone :: "pystr option"
  experience :: "pystr option"
  position :: "pystr option"
  location :: "pystr option"
  tech_stack :: "pystr option"
  technical_qa :: "qa_entry list option"
  evaluation_scores :: "pystr list option"
  screening_decision :: "pystr option"
  screening_reasoning :: "pystr option"

definition empty_candidate_data :: candidate_data where
  "empty_candidate_data =
     \<lparr>name = None, email = None, phone = None, experience = None, position = None,
      location = None, tech_stack = None, technical_qa = None, evaluation_scores = None,
      screening_decision = None, screening_reasoning = None\<rparr>"

text \<open>
  The completion service is a black box. A prompt is kept as the function of
  \<open>prompts.py\<close> that renders it together with its arguments, and the service answers the
  \<open>n\<close>-th call of a run to a prompt with a reply whose text can be read, a reply whose
  \<open>.text\<close> raises, or an exception of \<open>send_message\<close> itself. The session counts the
  calls it has made.
\<close>

datatype 'f prompt =
    GreetingPrompt
  | QuestionGenerationPrompt pystr "'f pynum" int
  | AnswerEvaluationPrompt pystr pystr pystr
  | ScreeningDecisionPrompt candidate_data "qa_entry list"

datatype ai_result = SendError | NoText | Text pystr

type_synonym 'f provider = "nat \<Rightarrow> 'f prompt \<Rightarrow> ai_result"

record session =
  state :: ConversationState
  candidate_data :: candidate_data
  technical_questions :: "tech_question list"
  current_question_index :: nat
  ai_calls :: nat

definition send_message :: "'f provider \<Rightarrow> session \<Rightarrow> 'f prompt \<Rightarrow> session \<times> ai_result" where
  "send_message ai s p = (s\<lparr>ai_calls := Suc (ai_calls s)\<rparr>, ai (ai_calls s) p)"

text \<open>The reply text inside a \<open>try\<close> block: \<open>None\<close> when either step raises.\<close>

definition reply_text :: "ai_result \<Rightarrow> pystr option" where
  "reply_text r = (case r of Text t \<Rightarrow> Some t | _ \<Rightarrow> None)"

definition reset :: "session \<Rightarrow> session" where
  "reset s = s\<lparr>state := GREETING, candidate_data := empty_candidate_data,
               technical_questions := [], current_question_index := 0\<rparr>"

definition check_exit_intent :: "unicode_tables \<Rightarrow> pystr \<Rightarrow> bool" where
  "check_exit_intent u message =
     (let message_lower = str_strip u (str_lower u message)
      in list_ex (\<lambda>keyword. str_contains keyword message_lower) EXIT_KEYWORDS)"

definition get_greeting :: "'f provider \<Rightarrow> session \<Rightarrow> session \<times> (pyerr + pystr)" where
  "get_greeting ai s =
     (case send_message ai s GreetingPrompt of
        (s1, SendError) \<Rightarrow> (s1, Inl ProviderError)
      | (s1, NoText) \<Rightarrow> (s1\<lparr>state := COLLECT_NAME\<rparr>, Inl ProviderError)
      | (s1, Text t) \<Rightarrow> (s1\<lparr>state := COLLECT_NAME\<rparr>, Inr t))"

definition get_candidate_data :: "session \<Rightarrow> candidate_data" where
  "get_candidate_data s = candidate_data s"

definition is_conversation_complete :: "session \<Rightarrow> bool" where
  "is_conversation_complete s \<longleftrightarrow> state s = ENDED"

section \<open>chatbot.py: collecting the fields\<close>

definition collect_name :: "unicode_tables \<Rightarrow> session \<Rightarrow> pystr \<Rightarrow> session \<times> (pyerr + pystr)" where
  "collect_name u s nm =
     (let (is_valid, error_msg) = validate_name u nm in
      if \<not> is_valid then (s, Inr error_msg)
      else (s\<lparr>candidate_data := (candidate_data s)\<lparr>name := Some (str_strip u nm)\<rparr>,
              state := COLLECT_EMAIL\<rparr>,
            get_info_collection_prompt u (str ''email'') nm))"

definition collect_email :: "unicode_tables \<Rightarrow> session \<Rightarrow> pystr \<Rightarrow> session \<times> (pyerr + pystr)" where
  "collect_email u s em =
     (let (is_valid, error_msg) = validate_email u em in
      if \<not> is_valid then (s, Inr error_msg)
      else (s\<lparr>candidate_data := (candidate_data s)\<lparr>email := Some (str_strip u em)\<rparr>,
              state := COLLECT_PHONE\<rparr>,
            get_info_collection_prompt u (str ''phone'') []))"

definition collect_phone :: "unicode_tables \<Rightarrow> session \<Rightarrow> pystr \<Rightarrow> session \<times> (pyerr + pystr)" where
  "collect_phone u s ph =
     (let (is_valid, error_msg) = validate_phone u ph in
      if \<not> is_valid then (s, Inr error_msg)
      else (s\<lparr>candidate_data := (candidate_data s)\<lparr>phone := Some (str_strip u ph)\<rparr>,
              state := COLLECT_EXPERIENCE\<rparr>,
            get_info_collection_prompt u (str ''experience'') []))"

definition collect_experience ::
  "unicode_tables \<Rightarrow> 'f float_ops \<Rightarrow> session \<Rightarrow> pystr \<Rightarrow> session \<times> (pyerr + pystr)" where
  "collect_experience u ops s ex =
     (let (is_valid, error_msg) = validate_experience ops ex in
      if \<not> is_valid then (s, Inr error_msg)
      else (s\<lparr>candidate_data := (candidate_data s)\<lparr>experience := Some (str_strip u ex)\<rparr>,
              state := COLLECT_POSITION\<rparr>,
            get_info_collection_prompt u (str ''position'') []))"

definition collect_position :: "unicode_tables \<Rightarrow> session \<Rightarrow> pystr \<Rightarrow> session \<times> (pyerr + pystr)" where
  "collect_position u s po =
     (let (is_valid, error_msg) = validate_non_empty u po (str ''Position'') in
      if \<not> is_valid then (s, Inr error_msg)
      else if length (str_strip u po) < 3
      then (s, Inr (str ''Please provide a valid position title (e.g., Software Engineer, Data Scientist, etc.).''))
      else (s\<lparr>candidate_data := (candidate_data s)\<lparr>position := Some (str_strip u po)\<rparr>,
              state := COLLECT_LOCATION\<rparr>,
            get_info_collection_prompt u (str ''location'') []))"

definition collect_location :: "unicode_tables \<Rightarrow> session \<Rightarrow> pystr \<Rightarrow> session \<times> (pyerr + pystr)" where
  "collect_location u s lo =
     (let (is_valid, error_msg) = validate_non_empty u lo (str ''Location'') in
      if \<not> is_valid then (s, Inr error_msg)
      else if length (str_strip u lo) < 2
      then (s, Inr (str ''Please provide a valid location (city, state, or country).''))
      else (s\<lparr>candidate_data := (candidate_data s)\<lparr>location := Some (str_strip u lo)\<rparr>,
              state := COLLECT_TECH_STACK\<rparr>,
            get_info_collection_prompt u (str ''tech_stack'') []))"

section \<open>chatbot.py: the tech stack and the questions\<close>

text \<open>
  The checks at the head of \<open>_collect_tech_stack\<close>, in the order of the source: the
  message of the first check that fails, or \<open>None\<close> when the tech stack is accepted.
\<close>

definition tech_stack_error :: "unicode_tables \<Rightarrow> pystr \<Rightarrow> pystr option" where
  "tech_stack_error u ts =
     (let (is_valid, error_msg) = validate_non_empty u ts (str ''Tech stack'') in
      if \<not> is_valid then Some error_msg
      else
        let tech_stack_clean = str_strip u ts in
        if length tech_stack_clean < 3
        then Some (str ''Please provide a valid tech stack with at least one technology (e.g., Python, JavaScript, React, etc.).'')
        else if str_isdigit u tech_stack_clean \<or> length (str_words u tech_stack_clean) = 0
        then Some (str ''Please provide a valid tech stack listing the technologies you work with (e.g., Python, Django, PostgreSQL).'')
        else
          let ws = str_words u (str_replace (ch CHR '','') (ch CHR '' '') tech_stack_clean) in
          if length ws = 1 \<and> length (hd ws) \<le> 2
          then Some (str ''Please provide your complete tech stack. List the programming languages, frameworks, and tools you're proficient in.'')
          else if \<not> list_ex (isalpha u) tech_stack_clean
          then Some (str ''Please provide a valid tech stack (e.g., Python, JavaScript, React, AWS, etc.).'')
          else None)"

text \<open>The \<open>try\<close> around \<open>float(self.candidate_data['experience'])\<close>, with \<open>0\<close> on any failure.\<close>

definition experience_years :: "'f float_ops \<Rightarrow> candidate_data \<Rightarrow> 'f pynum" where
  "experience_years ops cd =
     (case experience cd of
        None \<Rightarrow> PyInt 0
      | Some e \<Rightarrow> (case float_of_str ops e of None \<Rightarrow> PyInt 0 | Some v \<Rightarrow> PyFloat v))"

text \<open>The class \<open>[\d\.\)\-\*\s]\<close> removed from the head of a numbered line.\<close>

definition numbering_char :: "unicode_tables \<Rightarrow> nat \<Rightarrow> bool" where
  "numbering_char u c \<longleftrightarrow>
     isdecimal u c \<or> c = ch CHR ''.'' \<or> c = ch CHR '')'' \<or> c = ch CHR ''-'' \<or> c = ch CHR ''*'' \<or> isspace u c"

text \<open>
  The loop over the lines of the generated text: \<open>questions_list\<close> is the accumulator,
  extended at its end by each accepted question.
\<close>

fun parse_question_lines :: "unicode_tables \<Rightarrow> pystr list \<Rightarrow> pystr list \<Rightarrow> pystr list" where
  "parse_question_lines u [] questions_list = questions_list"
| "parse_question_lines u (l # ls) questions_list =
     (let line = str_strip u l in
      if line \<noteq> [] \<and> (isdigit u (hd line) \<or> str_startswith line (str ''-'') \<or> str_startswith line (str ''*''))
      then
        let question_text = str_strip u (re_sub_leading (numbering_char u) line) in
        if question_text \<noteq> [] \<and> length question_text > 10
        then parse_question_lines u ls (questions_list @ [question_text])
        else parse_question_lines u ls questions_list
      else parse_question_lines u ls questions_list)"

definition parse_questions :: "unicode_tables \<Rightarrow> pystr \<Rightarrow> pystr list" where
  "parse_questions u generated_text = parse_question_lines u (str_split 10 generated_text) []"

definition generic_questions :: "tech_question list" where
  "generic_questions =
     [\<lparr>technology = str ''General'', question = str ''Describe your most challenging technical project and how you solved it.''\<rparr>,
      \<lparr>technology = str ''General'', question = str ''How do you approach learning new technologies?''\<rparr>,
      \<lparr>technology = str ''General'', question = str ''Explain your experience with the technologies in your tech stack.''\<rparr>,
      \<lparr>technology = str ''General'', question = str ''How do you ensure code quality in your projects?''\<rparr>,
      \<lparr>technology = str ''General'', question = str ''Describe a time when you had to debug a complex issue.''\<rparr>]"

text \<open>The end of \<open>_collect_tech_stack\<close>, shared by the generated and the generic questions.\<close>

definition start_questions :: "session \<Rightarrow> pystr \<Rightarrow> session \<times> (pyerr + pystr)" where
  "start_questions s ts =
     (s\<lparr>candidate_data := (candidate_data s)\<lparr>technical_qa := Some [], evaluation_scores := Some []\<rparr>,
        state := ASK_TECHNICAL_QUESTIONS,
        current_question_index := 0\<rparr>,
      Inr (get_technical_question_intro ts
           @ str ''\<newline>\<newline>**Type 'ready' when you're ready for the first question.**''))"

definition collect_tech_stack ::
  "unicode_tables \<Rightarrow> 'f float_ops \<Rightarrow> config \<Rightarrow> 'f provider \<Rightarrow> session \<Rightarrow> pystr \<Rightarrow> session \<times> (pyerr + pystr)" where
  "collect_tech_stack u ops cfg ai s ts =
     (case tech_stack_error u ts of
        Some error_msg \<Rightarrow> (s, Inr error_msg)
      | None \<Rightarrow>
          let tech_stack_clean = str_strip u ts;
              s1 = s\<lparr>candidate_data := (candidate_data s)\<lparr>tech_stack := Some tech_stack_clean\<rparr>\<rparr>;
              num_questions = MAX_TECHNICAL_QUESTIONS cfg;
              question_prompt =
                QuestionGenerationPrompt ts (experience_years ops (candidate_data s1)) num_questions;
              (s2, r) = send_message ai s1 question_prompt
          in (case reply_text r of
                Some generated_text \<Rightarrow>
                  let questions_list = parse_questions u generated_text in
                  if int (length questions_list) < MIN_TECHNICAL_QUESTIONS cfg
                  then (s2, Inr (str ''I'm having trouble generating enough questions. Could you please re-enter your tech stack with more details?''))
                  else start_questions
                         (s2\<lparr>technical_questions :=
                               map (\<lambda>q. \<lparr>technology = str ''AI-Generated'', question = q\<rparr>)
                                 (py_slice_to num_questions questions_list)\<rparr>) ts
              | None \<Rightarrow> start_questions (s2\<lparr>technical_questions := generic_questions\<rparr>) ts))"

definition show_current_question :: "session \<Rightarrow> pystr" where
  "show_current_question s =
     (if current_question_index s < length (technical_questions s)
      then let current_q = technical_questions s ! current_question_index s
           in get_technical_question_prompt (question current_q) (technology current_q)
                (current_question_index s + 1) (length (technical_questions s))
      else str ''No more questions.'')"

section \<open>chatbot.py: the conclusion\<close>

text \<open>
  The loop over the lines of the decision text. \<open>None\<close> is the \<open>IndexError\<close> of
  \<open>line.split(':', 1)[1]\<close>, which the enclosing \<open>try\<close> catches.
\<close>

fun parse_decision_lines ::
  "unicode_tables \<Rightarrow> pystr list \<Rightarrow> pystr \<times> pystr \<times> pystr \<Rightarrow> (pystr \<times> pystr \<times> pystr) option" where
  "parse_decision_lines u [] acc = Some acc"
| "parse_decision_lines u (l # ls) (decision, reasoning, message) =
     (let line = str_strip u l in
      if str_contains (str ''DECISION:'') (str_upper u line) then
        (case split_once_second (ch CHR '':'') line of
           None \<Rightarrow> None
         | Some v \<Rightarrow> parse_decision_lines u ls (str_strip u v, reasoning, message))
      else if str_contains (str ''REASONING:'') (str_upper u line) then
        (case split_once_second (ch CHR '':'') line of
           None \<Rightarrow> None
         | Some v \<Rightarrow> parse_decision_lines u ls (decision, str_strip u v, message))
      else if str_contains (str ''MESSAGE:'') (str_upper u line) then
        (case split_once_second (ch CHR '':'') line of
           None \<Rightarrow> None
         | Some v \<Rightarrow> parse_decision_lines u ls (decision, reasoning, str_strip u v))
      else parse_decision_lines u ls (decision, reasoning, message))"

definition parse_decision :: "unicode_tables \<Rightarrow> pystr \<Rightarrow> (pystr \<times> pystr \<times> pystr) option" where
  "parse_decision u decision_text =
     parse_decision_lines u (str_split 10 decision_text)
       (str ''SCREEN OUT'', [], str ''Thank you for your time.'')"

definition conclusion_fallback :: "pystr \<Rightarrow> pystr" where
  "conclusion_fallback candidate_name =
     (str ''Thank you, '') @ candidate_name @ str '', for completing the screening!\<newline>\<newline>Our HR team will review your responses and contact you if you're selected for the next round.\<newline>\<newline>We appreciate your time and interest in our company. Good luck! '' @ [0xF0, 0x178, 0xA4, 0x17E]"

definition conclude_conversation :: "unicode_tables \<Rightarrow> 'f provider \<Rightarrow> session \<Rightarrow> session \<times> pystr" where
  "conclude_conversation u ai s =
     (let candidate_name = (case name (candidate_data s) of Some n \<Rightarrow> n | None \<Rightarrow> str ''there'');
          decision_prompt =
            ScreeningDecisionPrompt (candidate_data s)
              (case technical_qa (candidate_data s) of Some l \<Rightarrow> l | None \<Rightarrow> []);
          (s1, r) = send_message ai s decision_prompt
      in (case (case reply_text r of None \<Rightarrow> None | Some decision_text \<Rightarrow> parse_decision u decision_text) of
            Some (decision, reasoning, message) \<Rightarrow>
              (s1\<lparr>candidate_data := (candidate_data s1)\<lparr>screening_decision := Some decision,
                                                        screening_reasoning := Some reasoning\<rparr>,
                  state := ENDED\<rparr>,
               get_conclusion_prompt u candidate_name decision message)
          | None \<Rightarrow> (s1\<lparr>state := ENDED\<rparr>, conclusion_fallback candidate_name)))"

section \<open>chatbot.py: the technical questions\<close>

fun parse_evaluation_lines ::
  "unicode_tables \<Rightarrow> pystr list \<Rightarrow> pystr \<times> pystr \<Rightarrow> (pystr \<times> pystr) option" where
  "parse_evaluation_lines u [] acc = Some acc"
| "parse_evaluation_lines u (line # ls) (score_text, acknowledgment) =
     (if str_contains (str ''SCORE:'') (str_upper u line) then
        (case split_once_second (ch CHR '':'') line of
           None \<Rightarrow> None
         | Some v \<Rightarrow> parse_evaluation_lines u ls (str_strip u v, acknowledgment))
      else if str_contains (str ''ACKNOWLEDGMENT:'') (str_upper u line) then
        (case split_once_second (ch CHR '':'') line of
           None \<Rightarrow> None
         | Some v \<Rightarrow> parse_evaluation_lines u ls (score_text, str_strip u v))
      else parse_evaluation_lines u ls (score_text, acknowledgment))"

definition parse_evaluation :: "unicode_tables \<Rightarrow> pystr \<Rightarrow> (pystr \<times> pystr) option" where
  "parse_evaluation u evaluation_text =
     parse_evaluation_lines u (str_split 10 evaluation_text) (str ''N/A'', str ''Thank you for your answer.'')"

text \<open>
  The loop that sums the scores: \<open>total_score\<close> starts as the int \<open>0\<close>, and an entry
  whose \<open>score\<close> key is missing or whose text before the first \<open>/\<close> is not a float is
  passed over by the bare \<open>except\<close>.
\<close>

fun score_loop :: "'f float_ops \<Rightarrow> qa_entry list \<Rightarrow> 'f pynum \<times> nat \<Rightarrow> 'f pynum \<times> nat" where
  "score_loop ops [] acc = acc"
| "score_loop ops (qa # qas) (total_score, scored_count) =
     (case score qa of
        None \<Rightarrow> score_loop ops qas (total_score, scored_count)
      | Some sc \<Rightarrow>
          (case float_of_str ops (hd (str_split (ch CHR ''/'') sc)) of
             None \<Rightarrow> score_loop ops qas (total_score, scored_count)
           | Some score_val \<Rightarrow>
               score_loop ops qas (py_add_float ops total_score score_val, scored_count + 1)))"

definition interview_summary :: "'f float_ops \<Rightarrow> qa_entry list \<Rightarrow> pystr" where
  "interview_summary ops qas =
     (let (total_score, scored_count) = score_loop ops qas (PyInt 0, 0);
          avg_score = (if scored_count > 0 then py_truediv ops total_score scored_count else PyInt 0)
      in str ''\<newline>\<newline>'' @ [0xF0, 0x178, 0x201C, 0x160] @ str '' **Interview Summary:**\<newline>''
         @ str ''- Questions answered: '' @ show_nat (length qas) @ str ''\<newline>''
         @ (if scored_count > 0
            then str ''- Average score: '' @ format_1f ops (to_float ops avg_score) @ str ''/10\<newline>''
            else [])
         @ str ''\<newline>'')"

text \<open>
  The \<open>try\<close> block of \<open>_handle_technical_question\<close>, after the evaluation call; \<open>None\<close>
  when it raises. It raises before it has changed \<open>candidate_data\<close> or the index.
\<close>

definition evaluated_answer ::
  "unicode_tables \<Rightarrow> 'f float_ops \<Rightarrow> 'f provider \<Rightarrow> session \<Rightarrow> tech_question \<Rightarrow> pystr \<Rightarrow> ai_result
     \<Rightarrow> (session \<times> pystr) option" where
  "evaluated_answer u ops ai s1 current_q ans r =
     (case reply_text r of
        None \<Rightarrow> None
      | Some evaluation_text \<Rightarrow>
          (case parse_evaluation u evaluation_text of
             None \<Rightarrow> None
           | Some (score_text, acknowledgment) \<Rightarrow>
               (case technical_qa (candidate_data s1) of
                  None \<Rightarrow> None
                | Some qas \<Rightarrow>
                    let qas' = qas @ [\<lparr>technology = technology current_q,
                                        question = question current_q,
                                        answer = str_strip u ans,
                                        evaluation = Some evaluation_text,
                                        score = Some score_text\<rparr>];
                        s2 = s1\<lparr>candidate_data := (candidate_data s1)\<lparr>technical_qa := Some qas'\<rparr>,
                                current_question_index := current_question_index s1 + 1\<rparr>
                    in if current_question_index s2 < length (technical_questions s2)
                       then
                         let next_question = technical_questions s2 ! current_question_index s2;
                             question_prompt =
                               get_technical_question_prompt (question next_question)
                                 (technology next_question) (current_question_index s2 + 1)
                                 (length (technical_questions s2))
                         in Some (s2, acknowledgment @ str ''\<newline>\<newline>'' @ question_prompt)
                       else
                         let summary = interview_summary ops qas';
                             (s3, conclusion) = conclude_conversation u ai (s2\<lparr>state := CONCLUSION\<rparr>)
                         in Some (s3, acknowledgment @ summary @ conclusion))))"

text \<open>The \<open>except\<close> block of \<open>_handle_technical_question\<close>.\<close>

definition unevaluated_answer ::
  "unicode_tables \<Rightarrow> 'f provider \<Rightarrow> session \<Rightarrow> tech_question \<Rightarrow> pystr \<Rightarrow> session \<times> (pyerr + pystr)" where
  "unevaluated_answer u ai s1 current_q ans =
     (case technical_qa (candidate_data s1) of
        None \<Rightarrow> (s1, Inl (KeyError ''technical_qa''))
      | Some qas \<Rightarrow>
          let qas' = qas @ [\<lparr>technology = technology current_q,
                              question = question current_q,
                              answer = str_strip u ans,
                              evaluation = None,
                              score = None\<rparr>];
              s2 = s1\<lparr>candidate_data := (candidate_data s1)\<lparr>technical_qa := Some qas'\<rparr>,
                      current_question_index := current_question_index s1 + 1\<rparr>
          in if current_question_index s2 < length (technical_questions s2)
             then
               let remaining = int (length (technical_questions s2)) - int (current_question_index s2);
                   ack = get_question_acknowledgment remaining;
                   next_question = technical_questions s2 ! current_question_index s2;
                   question_prompt =
                     get_technical_question_prompt (question next_question)
                       (technology next_question) (current_question_index s2 + 1)
                       (length (technical_questions s2))
               in (s2, Inr (ack @ str ''\<newline>\<newline>'' @ question_prompt))
             else
               let (s3, conclusion) = conclude_conversation u ai (s2\<lparr>state := CONCLUSION\<rparr>)
               in (s3, Inr conclusion))"

definition handle_technical_question ::
  "unicode_tables \<Rightarrow> 'f float_ops \<Rightarrow> 'f provider \<Rightarrow> session \<Rightarrow> pystr \<Rightarrow> session \<times> (pyerr + pystr)" where
  "handle_technical_question u ops ai s ans =
     (if \<not> current_question_index s < length (technical_questions s) then (s, Inl IndexError)
      else
        let current_q = technical_questions s ! current_question_index s in
        (case tech_stack (candidate_data s) of
           None \<Rightarrow> (s, Inl (KeyError ''tech_stack''))
         | Some ts \<Rightarrow>
             let evaluation_prompt = AnswerEvaluationPrompt (question current_q) ans ts;
                 (s1, r) = send_message ai s evaluation_prompt
             in (case evaluated_answer u ops ai s1 current_q ans r of
                   Some (s', response) \<Rightarrow> (s', Inr response)
                 | None \<Rightarrow> unevaluated_answer u ai s1 current_q ans)))"

section \<open>chatbot.py: the entry point\<close>

definition ready_words :: "pystr list" where
  "ready_words = [str ''ok'', str ''yes'', str ''ready'', str ''sure'', str ''continue'', str ''let's go'', str ''proceed'']"

definition session_closed_text :: pystr where
  "session_closed_text = str ''The conversation has ended. Please refresh to start a new screening session.''"

text \<open>
  \<open>process_message\<close> returns the session as the call leaves it, and the text returned
  or the exception raised. The states are the eleven constants of \<open>ConversationState\<close>,
  so the final \<open>return prompts.get_fallback_prompt()\<close> of the source is reached for
  none of them.
\<close>

definition process_message ::
  "unicode_tables \<Rightarrow> 'f float_ops \<Rightarrow> config \<Rightarrow> 'f provider \<Rightarrow> session \<Rightarrow> pystr \<Rightarrow> session \<times> (pyerr + pystr)" where
  "process_message u ops cfg ai s user_message =
     (if check_exit_intent u user_message
      then (s\<lparr>state := ENDED\<rparr>, Inr get_exit_confirmation)
      else (case state s of
              GREETING \<Rightarrow> get_greeting ai s
            | COLLECT_NAME \<Rightarrow> collect_name u s user_message
            | COLLECT_EMAIL \<Rightarrow> collect_email u s user_message
            | COLLECT_PHONE \<Rightarrow> collect_phone u s user_message
            | COLLECT_EXPERIENCE \<Rightarrow> collect_experience u ops s user_message
            | COLLECT_POSITION \<Rightarrow> collect_position u s user_message
            | COLLECT_LOCATION \<Rightarrow> collect_location u s user_message
            | COLLECT_TECH_STACK \<Rightarrow> collect_tech_stack u ops cfg ai s user_message
            | ASK_TECHNICAL_QUESTIONS \<Rightarrow>
                if current_question_index s = 0 \<and> str_lower u (str_strip u user_message) \<in> set ready_words
                then (s, Inr (show_current_question s))
                else handle_technical_question u ops ai s user_message
            | CONCLUSION \<Rightarrow> (case conclude_conversation u ai s of (s', text) \<Rightarrow> (s', Inr text))
            | ENDED \<Rightarrow> (s, Inr session_closed_text)))"

section \<open>data\_handler.py\<close>

text \<open>
  A record handed to the store is a dictionary from keys to JSON values: a value is a
  \<open>str\<close> (\<open>Inl\<close>) or a value of any other kind (\<open>Inr\<close>).
\<close>

type_synonym 'a record_dict = "pystr \<rightharpoonup> pystr + 'a"

text \<open>\<open>os.path.join\<close> on POSIX paths.\<close>

definition os_path_join :: "pystr \<Rightarrow> pystr \<Rightarrow> pystr" where
  "os_path_join a b =
     (if str_startswith b (str ''/'') then b
      else if a = [] \<or> last a = ch CHR ''/'' then a @ b
      else a @ str ''/'' @ b)"

definition CANDIDATES_DIR :: pystr where
  "CANDIDATES_DIR = os_path_join (str ''data'') (str ''candidates'')"

text \<open>
  What \<open>save_candidate\<close> sees of the disk: the record each path holds, and whether
  opening a path for writing succeeds. The two readings of the clock are arguments:
  \<open>iso_now\<close> is \<open>datetime.now().isoformat()\<close>, \<open>stamp_now\<close> is
  \<open>datetime.now().strftime("%Y%m%d_%H%M%S")\<close>. The dictionary is mutated in place, so
  its new value is returned next to the disk and the result.
\<close>

record 'a disk =
  file_content :: "pystr \<rightharpoonup> 'a record_dict"
  writable :: "pystr \<Rightarrow> bool"

definition save_candidate ::
  "unicode_tables \<Rightarrow> pystr \<Rightarrow> pystr \<Rightarrow> 'a disk \<Rightarrow> 'a record_dict
     \<Rightarrow> 'a record_dict \<times> 'a disk \<times> (pyerr + pystr)" where
  "save_candidate u iso_now stamp_now d candidate =
     (let candidate1 = candidate(str ''submission_time'' \<mapsto> Inl iso_now) in
      (case (case candidate1 (str ''name'') of None \<Rightarrow> Inl (str ''unknown'') | Some v \<Rightarrow> v) of
         Inr _ \<Rightarrow> (candidate1, d, Inl AttributeError)
       | Inl nm \<Rightarrow>
           let name_slug = str_replace (ch CHR '' '') (ch CHR ''_'') (str_lower u nm);
               filename = name_slug @ str ''_'' @ stamp_now @ str ''.json'';
               filepath = os_path_join CANDIDATES_DIR filename
           in if writable d filepath
              then (candidate1,
                    d\<lparr>file_content := (file_content d)(filepath \<mapsto> candidate1)\<rparr>,
                    Inr filepath)
              else (candidate1, d, Inl OSError)))"

text \<open>
  What \<open>get_all_candidates\<close> sees of the disk: the names \<open>os.listdir\<close> returns, in its
  order, each with what is found at its path: nothing (\<open>os.path.exists\<close> is false, as
  for a dangling link), a file that cannot be opened, a file that is not JSON, or a file
  holding a JSON value. \<open>truthy\<close> is Python's truth value of a loaded value.
\<close>

datatype 'r node = Missing | Unreadable | Corrupt | Json 'r

definition load_candidate :: "'r node \<Rightarrow> pyerr + 'r option" where
  "load_candidate nd =
     (case nd of
        Missing \<Rightarrow> Inr None
      | Unreadable \<Rightarrow> Inl OSError
      | Corrupt \<Rightarrow> Inl JSONDecodeError
      | Json r \<Rightarrow> Inr (Some r))"

fun get_all_loop :: "('r \<Rightarrow> bool) \<Rightarrow> (pystr \<times> 'r node) list \<Rightarrow> 'r list \<Rightarrow> pyerr + 'r list" where
  "get_all_loop truthy [] candidates = Inr candidates"
| "get_all_loop truthy ((filename, nd) # rest) candidates =
     (if str_endswith filename (str ''.json'') then
        (case load_candidate nd of
           Inl e \<Rightarrow> Inl e
         | Inr None \<Rightarrow> get_all_loop truthy rest candidates
         | Inr (Some candidate) \<Rightarrow>
             if truthy candidate then get_all_loop truthy rest (candidates @ [candidate])
             else get_all_loop truthy rest candidates)
      else get_all_loop truthy rest candidates)"

text \<open>\<open>None\<close> for the directory is \<open>os.listdir\<close> raising.\<close>

definition get_all_candidates ::
  "('r \<Rightarrow> bool) \<Rightarrow> (pystr \<times> 'r node) list option \<Rightarrow> pyerr + 'r list" where
  "get_all_candidates truthy dir =
     (case dir of None \<Rightarrow> Inl OSError | Some entries \<Rightarrow> get_all_loop truthy entries [])"

section \<open>The properties in the words of the specification\<close>

text \<open>
  The numerators the average is taken over: for each answer that has a score whose text
  before the first \<open>/\<close> is a number, that number, in the order of the answers.
\<close>

definition parsed_numerators :: "'f float_ops \<Rightarrow> qa_entry list \<Rightarrow> 'f list" where
  "parsed_numerators ops qas =
     [v. qa \<leftarrow> qas,
         sc \<leftarrow> (case score qa of Some sc \<Rightarrow> [sc] | None \<Rightarrow> []),
         v \<leftarrow> (case float_of_str ops (takeWhile (\<lambda>c. c \<noteq> ch CHR ''/'') sc) of Some v \<Rightarrow> [v] | None \<Rightarrow> [])]"

text \<open>
  The records a listing yields: the loaded values of the entries named \<open>*.json\<close> that
  hold a JSON value, where that value is truthy, in the order of the listing.
\<close>

definition readable_records :: "('r \<Rightarrow> bool) \<Rightarrow> (pystr \<times> 'r node) list \<Rightarrow> 'r list" where
  "readable_records truthy entries =
     [r. (filename, nd) \<leftarrow> entries, str_endswith filename (str ''.json''),
         r \<leftarrow> (case nd of Json r \<Rightarrow> [r] | _ \<Rightarrow> []), truthy r]"










section \<open>Example runs\<close>

text \<open>
  A fragment of the Unicode tables to run the model on: the spaces beyond ASCII, the
  Arabic-Indic and the fullwidth digits and the three superscript digits of Latin-1, and
  the letters of Latin-1 and of the basic Cyrillic alphabet with their case forms. The
  theorems hold for the full tables as for any others; the examples use this fragment.
\<close>

definition sample_lower_char :: "nat \<Rightarrow> nat" where
  "sample_lower_char c =
     (if c < 128 then lower_char c
      else if 0xC0 \<le> c \<and> c \<le> 0xDE \<and> c \<noteq> 0xD7 then c + 32
      else if 0x410 \<le> c \<and> c \<le> 0x42F then c + 32
      else c)"

definition sample_tables :: unicode_tables where
  "sample_tables =
     \<lparr>tab_isspace = (\<lambda>c. c \<in> {0x85, 0xA0, 0x1680, 0x2028, 0x2029, 0x202F, 0x205F, 0x3000}
                            \<or> (0x2000 \<le> c \<and> c \<le> 0x200A)),
      tab_isdigit = (\<lambda>c. c \<in> {0xB2, 0xB3, 0xB9} \<or> (0x660 \<le> c \<and> c \<le> 0x669)
                            \<or> (0xFF10 \<le> c \<and> c \<le> 0xFF19)),
      tab_isdecimal = (\<lambda>c. (0x660 \<le> c \<and> c \<le> 0x669) \<or> (0xFF10 \<le> c \<and> c \<le> 0xFF19)),
      tab_isalpha = (\<lambda>c. c \<in> {0xAA, 0xB5, 0xBA}
                            \<or> (0xC0 \<le> c \<and> c \<le> 0xFF \<and> c \<noteq> 0xD7 \<and> c \<noteq> 0xF7)
                            \<or> (0x410 \<le> c \<and> c \<le> 0x44F)),
      tab_lower = map sample_lower_char,
      tab_upper = (\<lambda>c. if c = 0xDF then str ''SS''
                         else if c = 0xB5 then [0x39C]
                         else if c = 0xFF then [0x178]
                         else if 0xE0 \<le> c \<and> c \<le> 0xFE \<and> c \<noteq> 0xF7 then [c - 32]
                         else if 0x430 \<le> c \<and> c \<le> 0x44F then [c - 32]
                         else [c])\<rparr>"

text \<open>
  A small number system to run the model on: decimals with one fractional digit, held
  as a count of tenths. It stands in for \<open>float\<close> in the examples only.
\<close>

definition digits_value :: "pystr \<Rightarrow> nat" where
  "digits_value s = foldl (\<lambda>a c. 10 * a + (c - 48)) 0 s"

definition fixed1_ops :: "int float_ops" where
  "fixed1_ops =
     \<lparr>float_of_str = (\<lambda>s. if s \<noteq> [] \<and> list_all ascii_digit s then Some (10 * int (digits_value s)) else None),
      float_of_int = (\<lambda>i. 10 * i),
      float_add = (\<lambda>a b. a + b),
      float_div = (\<lambda>a b. if b = 0 then 0 else (10 * a) div b),
      float_le = (\<lambda>a b. a \<le> b),
      format_1f = (\<lambda>v. show_nat (nat (v div 10)) @ str ''.'' @ show_nat (nat (v mod 10)))\<rparr>"

text \<open>A service that is down, and one that answers its calls from a script.\<close>

definition silent_provider :: "int provider" where
  "silent_provider n p = SendError"

definition scripted_provider :: "ai_result list \<Rightarrow> int provider" where
  "scripted_provider rs n p = (if n < length rs then rs ! n else SendError)"

text \<open>A session with one question left to answer, placed in a given state.\<close>

definition sample_session :: "ConversationState \<Rightarrow> session" where
  "sample_session st =
     \<lparr>state = st,
      candidate_data = empty_candidate_data\<lparr>name := Some (str ''Ada''), tech_stack := Some (str ''Python''),
                                             technical_qa := Some []\<rparr>,
      technical_questions =
        [\<lparr>technology = str ''General'', question = str ''How do you ensure code quality in your projects?''\<rparr>],
      current_question_index = 0,
      ai_calls = 0\<rparr>"

text \<open>A session that has collected every field before the tech stack.\<close>

definition tech_stack_session :: session where
  "tech_stack_session =
     \<lparr>state = COLLECT_TECH_STACK,
      candidate_data = empty_candidate_data
        \<lparr>name := Some (str ''Ada''), email := Some (str ''ada@example.com''),
         phone := Some (str ''5550100123''), experience := Some (str ''3''),
         position := Some (str ''Backend Developer''), location := Some (str ''London'')\<rparr>,
      technical_questions = [],
      current_question_index = 0,
      ai_calls = 0\<rparr>"

text \<open>Four answers: two scored, one with a score that is no number, one never evaluated.\<close>

definition sample_answers :: "qa_entry list" where
  "sample_answers =
     [\<lparr>technology = str ''General'', question = str ''Q1'', answer = str ''A1'', evaluation = Some (str ''SCORE: 8/10''), score = Some (str ''8/10'')\<rparr>,
      \<lparr>technology = str ''General'', question = str ''Q2'', answer = str ''A2'', evaluation = Some (str ''fine''), score = Some (str ''N/A'')\<rparr>,
      \<lparr>technology = str ''General'', question = str ''Q3'', answer = str ''A3'', evaluation = None, score = None\<rparr>,
      \<lparr>technology = str ''General'', question = str ''Q4'', answer = str ''A4'', evaluation = Some (str ''SCORE: 7/10''), score = Some (str ''7/10'')\<rparr>]"

text \<open>A record to save, and a disk on which every path can be written.\<close>

definition sample_record :: "unit record_dict" where
  "sample_record = [str ''name'' \<mapsto> Inl (str ''Ada Lovelace''), str ''status'' \<mapsto> Inl (str ''screened'')]"

definition empty_disk :: "unit disk" where
  "empty_disk = \<lparr>file_content = Map.empty, writable = (\<lambda>p. True)\<rparr>"

text \<open>
  A listing whose records are association lists: one record, a file that is not named
  \<open>*.json\<close>, a dangling entry and an empty record.
\<close>

definition sample_directory :: "(pystr \<times> (pystr \<times> pystr) list node) list" where
  "sample_directory =
     [(str ''ada_20240501_100000.json'', Json [(str ''name'', str ''Ada'')]),
      (str ''notes.txt'', Corrupt),
      (str ''gone_20240501_100001.json'', Missing),
      (str ''empty_20240501_100002.json'', Json [])]"

definition nonempty :: "(pystr \<times> pystr) list \<Rightarrow> bool" where
  "nonempty r \<longleftrightarrow> r \<noteq> []"

text \<open>
  Replies of the service: a decision with its three labels, one of them given twice; a
  decision without a reasoning line; and an evaluation.
\<close>

definition labelled_reply :: pystr where
  "labelled_reply =
     str ''DECISION: SCREEN OUT\<newline>  Decision: SCREEN IN \<newline>REASONING: Solid answers.\<newline>MESSAGE: Well done.''"



section \<open>Evaluating the string functions\<close>

lemmas str_eval = str_def ch_def str_strip_def str_lower_def str_upper_def lower_char_def
  upper_char_def isspace_def isdigit_def isdecimal_def isalpha_def ascii_digit_def
  ascii_alpha_def str_startswith_def

section \<open>Phone validation\<close>

lemma re_sub_class_delete: "re_sub_class cls [] s = filter (\<lambda>c. \<not> cls c) s"
  by (induction s) auto

text \<open>
  C8. \<open>validate_phone\<close> accepts an input exactly when the input with all whitespace and
  every \<open>-\<close>, \<open>(\<close>, \<open>)\<close> and \<open>+\<close> removed consists of digits only and has between 10
  and 15 characters. Whitespace is what the class \<open>\s\<close> matches and a digit is what
  \<open>str.isdigit\<close> accepts, whatever the Unicode tables say of the characters beyond
  ASCII. \<open>+1 (555) 123-4567\<close> is accepted, \<open>12345\<close> is rejected, and every rejection
  carries a non-empty error message.
\<close>

theorem validate_phone_accepts_iff:
  "(fst (validate_phone u p) \<longleftrightarrow>
      (let r = filter (\<lambda>c. \<not> isspace u c \<and> c \<notin> set (str ''-()+'')) p
       in list_all (isdigit u) r \<and> 10 \<le> length r \<and> length r \<le> 15))
   \<and> fst (validate_phone u (str ''+1 (555) 123-4567''))
   \<and> \<not> fst (validate_phone u (str ''12345''))
   \<and> (\<not> fst (validate_phone u p) \<longrightarrow> snd (validate_phone u p) \<noteq> [])"
proof -
  have sep: "(\<lambda>c. \<not> phone_separator u c) = (\<lambda>c. \<not> isspace u c \<and> c \<notin> set (str ''-()+''))"
    by (auto simp: phone_separator_def str_def ch_def)
  have a: "fst (validate_phone u p) \<longleftrightarrow>
      (let r = filter (\<lambda>c. \<not> isspace u c \<and> c \<notin> set (str ''-()+'')) p
       in list_all (isdigit u) r \<and> 10 \<le> length r \<and> length r \<le> 15)"
    by (cases "p = []")
       (auto simp: validate_phone_def Let_def str_isdigit_def re_sub_class_delete sep)
  have b: "fst (validate_phone u (str ''+1 (555) 123-4567''))"
    by (simp add: validate_phone_def Let_def str_isdigit_def phone_separator_def str_eval)
  have c: "\<not> fst (validate_phone u (str ''12345''))"
    by (simp add: validate_phone_def Let_def str_isdigit_def phone_separator_def str_eval)
  have d: "\<not> fst (validate_phone u p) \<longrightarrow> snd (validate_phone u p) \<noteq> []"
    by (simp add: validate_phone_def Let_def str_def)
  from a b c d show ?thesis by blast
qed

theorem validate_phone_accepts_iff_witness:
  "\<not> fst (validate_phone sample_tables (str ''555-0100''))
   \<and> snd (validate_phone sample_tables (str ''555-0100'')) \<noteq> []"
proof -
  have r: "\<not> fst (validate_phone sample_tables (str ''555-0100''))"
    by (simp add: validate_phone_def Let_def str_isdigit_def phone_separator_def str_eval)
  from validate_phone_accepts_iff [of sample_tables "str ''555-0100''"]
  have "\<not> fst (validate_phone sample_tables (str ''555-0100''))
          \<longrightarrow> snd (validate_phone sample_tables (str ''555-0100'')) \<noteq> []"
    by blast
  with r show ?thesis by blast
qed

text \<open>
  With the fragment of the tables, a number written with no-break spaces and one written
  in Arabic-Indic digits are accepted, as Python accepts them.
\<close>

lemma validate_phone_no_break_spaces:
  "fst (validate_phone sample_tables
          (str ''+1'' @ [0xA0] @ str ''555'' @ [0xA0] @ str ''123'' @ [0xA0] @ str ''4567''))"
  by (simp add: validate_phone_def Let_def str_isdigit_def phone_separator_def str_eval
        sample_tables_def)

lemma validate_phone_arabic_indic:
  "fst (validate_phone sample_tables
          [0x660, 0x661, 0x662, 0x663, 0x664, 0x665, 0x666, 0x667, 0x668, 0x669])"
  by (simp add: validate_phone_def Let_def str_isdigit_def phone_separator_def str_eval
        sample_tables_def)

section \<open>Facts about the string functions\<close>

lemma str_startswith_iff: "str_startswith s p \<longleftrightarrow> (\<exists>post. s = p @ post)"
  unfolding str_startswith_def
  by (metis append_eq_conv_conj append_take_drop_id)

lemma str_contains_iff: "str_contains sub s \<longleftrightarrow> (\<exists>pre post. s = pre @ sub @ post)"
proof (induction s)
  case Nil
  then show ?case by auto
next
  case (Cons c cs)
  show ?case
  proof
    assume "str_contains sub (c # cs)"
    then consider "str_startswith (c # cs) sub" | "str_contains sub cs" by auto
    then show "\<exists>pre post. c # cs = pre @ sub @ post"
    proof cases
      case 1
      then obtain post where "c # cs = sub @ post" by (auto simp: str_startswith_iff)
      then have "c # cs = [] @ sub @ post" by simp
      then show ?thesis by blast
    next
      case 2
      with Cons.IH obtain pre post where "cs = pre @ sub @ post" by blast
      then have "c # cs = (c # pre) @ sub @ post" by simp
      then show ?thesis by blast
    qed
  next
    assume "\<exists>pre post. c # cs = pre @ sub @ post"
    then obtain pre post where e: "c # cs = pre @ sub @ post" by blast
    show "str_contains sub (c # cs)"
    proof (cases pre)
      case Nil
      with e have "str_startswith (c # cs) sub" by (auto simp: str_startswith_iff)
      then show ?thesis by simp
    next
      case (Cons a pre')
      with e have "cs = pre' @ sub @ post" by simp
      with Cons.IH have "str_contains sub cs" by blast
      then show ?thesis by simp
    qed
  qed
qed

section \<open>Exit intent\<close>

lemma check_exit_intent_iff:
  "check_exit_intent u msg \<longleftrightarrow>
     (\<exists>keyword \<in> set EXIT_KEYWORDS. \<exists>pre post.
        str_strip u (str_lower u msg) = pre @ keyword @ post)"
  by (simp add: check_exit_intent_def Let_def list_ex_iff str_contains_iff)

text \<open>
  C1. In every state of the session, \<open>ENDED\<close> included, an input whose lowercased and
  trimmed form holds one of the exit keywords as a substring makes \<open>process_message\<close>
  set the state to \<open>ENDED\<close> and return the exit confirmation. Nothing else happens: the
  collected data, the questions and the index are as before and the completion service
  is not called.
\<close>

theorem exit_intent_ends_session:
  assumes "keyword \<in> set EXIT_KEYWORDS"
    and "str_strip u (str_lower u msg) = pre @ keyword @ post"
  shows "process_message u ops cfg ai s msg = (s\<lparr>state := ENDED\<rparr>, Inr get_exit_confirmation)"
proof -
  from assms have "check_exit_intent u msg" unfolding check_exit_intent_iff by blast
  then show ?thesis by (simp add: process_message_def)
qed

theorem exit_intent_ends_session_witness:
  "process_message sample_tables fixed1_ops default_config silent_provider
     (sample_session ENDED) (str ''  QUIT now '')
     = ((sample_session ENDED)\<lparr>state := ENDED\<rparr>, Inr get_exit_confirmation)"
proof -
  have k: "str ''quit'' \<in> set EXIT_KEYWORDS" by (simp add: EXIT_KEYWORDS_def)
  have e: "str_strip sample_tables (str_lower sample_tables (str ''  QUIT now ''))
             = [] @ str ''quit'' @ str '' now''"
    by (simp add: str_eval)
  from exit_intent_ends_session [OF k e] show ?thesis .
qed

section \<open>The ended session\<close>

text \<open>
  C2, as the spec states it, fails: in state \<open>ENDED\<close> the input \<open>bye\<close> holds an exit
  keyword, and the text returned is the exit confirmation, not the session-closed text.
\<close>

theorem ended_session_exit_text_counterexample:
  "state (sample_session ENDED) = ENDED \<and>
   snd (process_message sample_tables fixed1_ops default_config silent_provider
          (sample_session ENDED) (str ''bye''))
     = Inr get_exit_confirmation \<and>
   get_exit_confirmation \<noteq> session_closed_text"
proof -
  have "check_exit_intent sample_tables (str ''bye'')"
    by (simp add: check_exit_intent_def EXIT_KEYWORDS_def str_eval)
  moreover have "get_exit_confirmation \<noteq> session_closed_text"
    by (simp add: get_exit_confirmation_def session_closed_text_def str_def)
  ultimately show ?thesis
    by (simp add: process_message_def sample_session_def)
qed

text \<open>
  C2, amended. Once the state is \<open>ENDED\<close>, \<open>is_conversation_complete\<close> is true and
  every further input leaves the whole session, its state and its collected data
  included, as it is. The text returned is the session-closed text for an input without
  an exit keyword, and the exit confirmation for an input with one.
\<close>

theorem ended_session_stays_closed:
  assumes "state s = ENDED"
  shows "is_conversation_complete s \<and>
         process_message u ops cfg ai s msg =
           (s, Inr (if check_exit_intent u msg then get_exit_confirmation else session_closed_text))"
  using assms by (simp add: is_conversation_complete_def process_message_def)

theorem ended_session_stays_closed_witness:
  "is_conversation_complete (sample_session ENDED) \<and>
   process_message sample_tables fixed1_ops default_config silent_provider
     (sample_session ENDED) (str ''hello again'')
     = (sample_session ENDED, Inr session_closed_text)"
proof -
  have st: "state (sample_session ENDED) = ENDED" by (simp add: sample_session_def)
  have ne: "\<not> check_exit_intent sample_tables (str ''hello again'')"
    by (simp add: check_exit_intent_def EXIT_KEYWORDS_def str_eval)
  from ended_session_stays_closed
         [OF st, of sample_tables fixed1_ops default_config silent_provider "str ''hello again''"] ne
  show ?thesis by simp
qed

section \<open>Parsing the generated questions\<close>

lemma str_startswith_single: "str_startswith s [c] \<longleftrightarrow> s \<noteq> [] \<and> hd s = c"
  by (cases s) (auto simp: str_startswith_def)

lemma parse_question_lines_acc:
  "parse_question_lines u ls acc =
     acc @ [str_strip u (re_sub_leading (numbering_char u) (str_strip u l)).
              l \<leftarrow> ls,
              str_strip u l \<noteq> [] \<and>
                (isdigit u (hd (str_strip u l)) \<or> hd (str_strip u l) = ch CHR ''-''
                 \<or> hd (str_strip u l) = ch CHR ''*''),
              10 < length (str_strip u (re_sub_leading (numbering_char u) (str_strip u l)))]"
proof (induction ls arbitrary: acc)
  case Nil
  show ?case by simp
next
  case (Cons l ls)
  have m: "str ''-'' = [ch CHR ''-'']" "str ''*'' = [ch CHR ''*'']"
    by (simp_all add: str_def ch_def)
  show ?case
    by (simp add: Cons.IH Let_def m str_startswith_single)
qed

text \<open>
  C6, as the spec states it, fails: a line without a leading digit, \<open>-\<close> or \<open>*\<close> is
  passed over, however long the text that remains after the stripping.
\<close>

theorem unnumbered_line_counterexample:
  "10 < length (str_strip sample_tables
                  (re_sub_leading (numbering_char sample_tables)
                     (str_strip sample_tables (str ''Explain how Python decorators work''))))
   \<and> parse_questions sample_tables (str ''Explain how Python decorators work'') = []"
  by (simp add: parse_questions_def str_eval numbering_char_def re_sub_leading_def)

text \<open>
  C6, amended. A line of the reply is accepted as a question exactly when its trimmed
  form begins with a digit, \<open>-\<close> or \<open>*\<close> and the text that remains after the leading
  digits, dots, closing parentheses, hyphens, asterisks and whitespace are stripped, and
  the rest trimmed, has more than 10 characters. The questions are these remaining texts,
  in the order of their lines. The first character is a digit when \<open>str.isdigit\<close>
  accepts it; the digits and the whitespace stripped are those of the classes \<open>\d\<close> and
  \<open>\s\<close>; the length is counted in characters.
\<close>

theorem parse_questions_accepts:
  "parse_questions u reply =
     [str_strip u (re_sub_leading (numbering_char u) (str_strip u l)).
        l \<leftarrow> str_split 10 reply,
        str_strip u l \<noteq> [] \<and>
          (isdigit u (hd (str_strip u l)) \<or> hd (str_strip u l) = ch CHR ''-''
           \<or> hd (str_strip u l) = ch CHR ''*''),
        10 < length (str_strip u (re_sub_leading (numbering_char u) (str_strip u l)))]"
  by (simp add: parse_questions_def parse_question_lines_acc)

theorem parse_questions_accepts_witness:
  "parse_questions sample_tables
     (str ''1. Explain how Python decorators work\<newline>2) short\<newline>Here'')
     = [str ''Explain how Python decorators work'']"
  using parse_questions_accepts
          [of sample_tables "str ''1. Explain how Python decorators work\<newline>2) short\<newline>Here''"]
  by (simp add: str_eval numbering_char_def re_sub_leading_def)

text \<open>
  With the fragment of the tables: a text of ten characters, one of them beyond ASCII,
  is not long enough; a line numbered with a fullwidth digit is accepted; a leading
  no-break space is stripped.
\<close>

lemma parse_questions_counts_characters:
  "parse_questions sample_tables (str ''1. What'' @ [0x2019] @ str ''s up?'') = []"
  by (simp add: parse_questions_def str_eval numbering_char_def re_sub_leading_def
        sample_tables_def)

lemma parse_questions_fullwidth_digit:
  "parse_questions sample_tables ([0xFF11] @ str ''. Explain closures in JavaScript'')
     = [str ''Explain closures in JavaScript'']"
  by (simp add: parse_questions_def str_eval numbering_char_def re_sub_leading_def
        sample_tables_def)

lemma parse_questions_no_break_space:
  "parse_questions sample_tables ([0xA0] @ str ''1. Explain closures in JavaScript'')
     = [str ''Explain closures in JavaScript'']"
  by (simp add: parse_questions_def str_eval numbering_char_def re_sub_leading_def
        sample_tables_def)

section \<open>Too few questions\<close>

lemma experience_years_tech_stack [simp]:
  "experience_years ops (cd\<lparr>tech_stack := x\<rparr>) = experience_years ops cd"
  by (simp add: experience_years_def)

text \<open>
  C3, as the spec states it, fails in two ways. The input \<open>Python, Django\<close> passes the
  tech-stack checks and the reply yields one question only, yet after the call the
  \<open>tech_stack\<close> key, absent before, holds the input: the field has been collected. And
  the input \<open>React frontend\<close> passes the tech-stack checks too, but it holds the exit
  keyword \<open>end\<close>, so the state does not stay \<open>COLLECT_TECH_STACK\<close>: the session ends.
\<close>

theorem rejected_tech_stack_counterexample:
  "tech_stack_error sample_tables (str ''Python, Django'') = None
   \<and> int (length (parse_questions sample_tables (str ''1. What is a Python decorator?'')))
       < MIN_TECHNICAL_QUESTIONS default_config
   \<and> tech_stack (candidate_data tech_stack_session) = None
   \<and> tech_stack (candidate_data (fst (process_message sample_tables fixed1_ops default_config
         (scripted_provider [Text (str ''1. What is a Python decorator?'')])
         tech_stack_session (str ''Python, Django'')))) = Some (str ''Python, Django'')
   \<and> tech_stack_error sample_tables (str ''React frontend'') = None
   \<and> state (fst (process_message sample_tables fixed1_ops default_config
         (scripted_provider [Text (str ''1. What is a Python decorator?'')])
         tech_stack_session (str ''React frontend''))) = ENDED"
proof -
  have e1: "tech_stack_error sample_tables (str ''Python, Django'') = None"
    by (simp add: tech_stack_error_def validate_non_empty_def str_isdigit_def str_replace_def
          Let_def str_eval)
  have e2: "tech_stack_error sample_tables (str ''React frontend'') = None"
    by (simp add: tech_stack_error_def validate_non_empty_def str_isdigit_def str_replace_def
          Let_def str_eval)
  have n1: "\<not> check_exit_intent sample_tables (str ''Python, Django'')"
    by (simp add: check_exit_intent_def EXIT_KEYWORDS_def str_eval)
  have x2: "check_exit_intent sample_tables (str ''React frontend'')"
    by (simp add: check_exit_intent_def EXIT_KEYWORDS_def str_eval)
  have few: "int (length (parse_questions sample_tables (str ''1. What is a Python decorator?'')))
               < MIN_TECHNICAL_QUESTIONS default_config"
    by (simp add: parse_questions_def default_config_def numbering_char_def re_sub_leading_def
          str_eval)
  have st: "str_strip sample_tables (str ''Python, Django'') = str ''Python, Django''"
    by (simp add: str_eval)
  have before: "tech_stack (candidate_data tech_stack_session) = None"
    by (simp add: tech_stack_session_def empty_candidate_data_def)
  have after: "tech_stack (candidate_data (fst (process_message sample_tables fixed1_ops
         default_config (scripted_provider [Text (str ''1. What is a Python decorator?'')])
         tech_stack_session (str ''Python, Django'')))) = Some (str ''Python, Django'')"
    using few
    by (simp add: process_message_def n1 collect_tech_stack_def e1 st send_message_def
          reply_text_def scripted_provider_def tech_stack_session_def Let_def)
  have ended: "state (fst (process_message sample_tables fixed1_ops default_config
         (scripted_provider [Text (str ''1. What is a Python decorator?'')])
         tech_stack_session (str ''React frontend''))) = ENDED"
    by (simp add: process_message_def x2)
  from e1 few before after e2 ended show ?thesis by blast
qed

text \<open>
  C3, amended. In state \<open>COLLECT_TECH_STACK\<close>, when the input holds no exit keyword and
  passes the tech-stack checks, and the reply of the completion service yields fewer
  questions than \<open>MIN_TECHNICAL_QUESTIONS\<close>, \<open>process_message\<close> returns the request to
  re-enter the tech stack and the state stays \<open>COLLECT_TECH_STACK\<close>: no question is
  stored and the index is unchanged. The session differs from the one before in two
  places only: the trimmed input has been written to the \<open>tech_stack\<close> key, and one
  call to the service has been made.
\<close>

theorem too_few_questions_does_not_advance:
  assumes "state s = COLLECT_TECH_STACK"
    and "\<not> check_exit_intent u msg"
    and "tech_stack_error u msg = None"
    and "ai (ai_calls s)
           (QuestionGenerationPrompt msg (experience_years ops (candidate_data s))
              (MAX_TECHNICAL_QUESTIONS cfg)) = Text reply"
    and "int (length (parse_questions u reply)) < MIN_TECHNICAL_QUESTIONS cfg"
  shows "process_message u ops cfg ai s msg =
           (s\<lparr>candidate_data := (candidate_data s)\<lparr>tech_stack := Some (str_strip u msg)\<rparr>,
              ai_calls := Suc (ai_calls s)\<rparr>,
            Inr (str ''I'm having trouble generating enough questions. Could you please re-enter your tech stack with more details?''))
         \<and> state (fst (process_message u ops cfg ai s msg)) = COLLECT_TECH_STACK"
  using assms
  by (simp add: process_message_def collect_tech_stack_def send_message_def reply_text_def Let_def)

theorem too_few_questions_does_not_advance_witness:
  "process_message sample_tables fixed1_ops default_config
     (scripted_provider [Text (str ''1. What is a Python decorator?'')])
     tech_stack_session (str ''Python, Django'')
   = (tech_stack_session
        \<lparr>candidate_data := (candidate_data tech_stack_session)\<lparr>tech_stack := Some (str ''Python, Django'')\<rparr>,
         ai_calls := Suc 0\<rparr>,
      Inr (str ''I'm having trouble generating enough questions. Could you please re-enter your tech stack with more details?''))
   \<and> state (fst (process_message sample_tables fixed1_ops default_config
                    (scripted_provider [Text (str ''1. What is a Python decorator?'')])
                    tech_stack_session (str ''Python, Django''))) = COLLECT_TECH_STACK"
proof -
  let ?s = "tech_stack_session"
  let ?ai = "scripted_provider [Text (str ''1. What is a Python decorator?'')]"
  have h1: "state ?s = COLLECT_TECH_STACK" by (simp add: tech_stack_session_def)
  have h2: "\<not> check_exit_intent sample_tables (str ''Python, Django'')"
    by (simp add: check_exit_intent_def EXIT_KEYWORDS_def str_eval)
  have h3: "tech_stack_error sample_tables (str ''Python, Django'') = None"
    by (simp add: tech_stack_error_def validate_non_empty_def str_isdigit_def str_replace_def
          Let_def str_eval)
  have h4: "?ai (ai_calls ?s)
              (QuestionGenerationPrompt (str ''Python, Django'')
                 (experience_years fixed1_ops (candidate_data ?s))
                 (MAX_TECHNICAL_QUESTIONS default_config))
            = Text (str ''1. What is a Python decorator?'')"
    by (simp add: scripted_provider_def tech_stack_session_def)
  have h5: "int (length (parse_questions sample_tables (str ''1. What is a Python decorator?'')))
              < MIN_TECHNICAL_QUESTIONS default_config"
    by (simp add: parse_questions_def default_config_def numbering_char_def re_sub_leading_def
          str_eval)
  have st: "str_strip sample_tables (str ''Python, Django'') = str ''Python, Django''"
    by (simp add: str_eval)
  have ac: "ai_calls ?s = 0" by (simp add: tech_stack_session_def)
  from too_few_questions_does_not_advance
         [where u = sample_tables and ai = ?ai and ops = fixed1_ops and cfg = default_config
            and s = ?s and msg = "str ''Python, Django''", OF h1 h2 h3 h4 h5]
  show ?thesis
    unfolding st ac by blast
qed

text \<open>
  With the fragment of the tables: a tech stack of two characters, one of them beyond
  ASCII, is too short, and one written in Cyrillic letters is accepted.
\<close>

lemma tech_stack_error_counts_characters:
  "tech_stack_error sample_tables (str ''a'' @ [0xE9])
     = Some (str ''Please provide a valid tech stack with at least one technology (e.g., Python, JavaScript, React, etc.).'')"
  by (simp add: tech_stack_error_def validate_non_empty_def Let_def str_eval sample_tables_def)

lemma tech_stack_error_cyrillic:
  "tech_stack_error sample_tables [0x41F, 0x438, 0x442, 0x43E, 0x43D] = None"
  by (simp add: tech_stack_error_def validate_non_empty_def str_isdigit_def str_replace_def
        Let_def str_eval sample_tables_def)

section \<open>The average score\<close>

lemma str_split_nonempty: "str_split sep s \<noteq> []"
  by (induction s) (auto split: list.splits)

lemma hd_str_split: "hd (str_split sep s) = takeWhile (\<lambda>c. c \<noteq> sep) s"
  by (induction s) (auto split: list.splits simp: str_split_nonempty)

lemma parsed_numerators_Nil: "parsed_numerators ops [] = []"
  by (simp add: parsed_numerators_def)

lemma parsed_numerators_Cons:
  "parsed_numerators ops (qa # qas) =
     (case score qa of
        None \<Rightarrow> []
      | Some sc \<Rightarrow> (case float_of_str ops (takeWhile (\<lambda>c. c \<noteq> ch CHR ''/'') sc) of
                     Some v \<Rightarrow> [v] | None \<Rightarrow> []))
     @ parsed_numerators ops qas"
  by (simp add: parsed_numerators_def split: option.splits)

lemma score_loop_acc:
  "score_loop ops qas (t, n) =
     (if parsed_numerators ops qas = [] then t
      else PyFloat (foldl (float_add ops) (to_float ops t) (parsed_numerators ops qas)),
      n + length (parsed_numerators ops qas))"
proof (induction qas arbitrary: t n)
  case Nil
  show ?case by (simp add: parsed_numerators_Nil)
next
  case (Cons qa qas)
  show ?case
    by (simp add: Cons.IH parsed_numerators_Cons hd_str_split py_add_float_def to_float_def
          split: option.splits)
qed

text \<open>
  C7. The summary reports the number of answers and, when at least one score parses,
  the average: the numerators of the scores that parse, added up from \<open>0\<close> in the order
  of the answers, divided by how many they are. An answer without a score, or with a
  score whose text before the first \<open>/\<close> is no number, counts neither in the sum nor in
  the divisor; when no score parses, no average is reported. The arithmetic is that of
  the float operations, whatever they are.
\<close>

theorem average_over_parsed_scores:
  "interview_summary ops qas =
     (let nums = parsed_numerators ops qas
      in str ''\<newline>\<newline>'' @ [0xF0, 0x178, 0x201C, 0x160] @ str '' **Interview Summary:**\<newline>''
         @ str ''- Questions answered: '' @ show_nat (length qas) @ str ''\<newline>''
         @ (if nums = [] then []
            else str ''- Average score: ''
                 @ format_1f ops
                     (float_div ops (foldl (float_add ops) (float_of_int ops 0) nums)
                        (float_of_int ops (int (length nums))))
                 @ str ''/10\<newline>'')
         @ str ''\<newline>'')"
  by (simp add: interview_summary_def score_loop_acc Let_def py_truediv_def to_float_def)

theorem average_over_parsed_scores_witness:
  "interview_summary fixed1_ops sample_answers =
     (str ''\<newline>\<newline>'') @ [0xF0, 0x178, 0x201C, 0x160] @ str '' **Interview Summary:**\<newline>''
       @ str ''- Questions answered: 4\<newline>- Average score: 7.5/10\<newline>\<newline>''"
proof -
  have pn: "parsed_numerators fixed1_ops sample_answers = [80, 70]"
    by (simp add: parsed_numerators_def sample_answers_def fixed1_ops_def digits_value_def
          str_eval)
  have len: "length sample_answers = 4" by (simp add: sample_answers_def)
  show ?thesis
    unfolding average_over_parsed_scores [of fixed1_ops sample_answers] pn len
    by (simp add: fixed1_ops_def str_def)
qed

section \<open>Listing the stored records\<close>

lemma readable_records_Nil: "readable_records truthy [] = []"
  by (simp add: readable_records_def)

lemma readable_records_Cons:
  "readable_records truthy ((filename, nd) # entries) =
     (if str_endswith filename (str ''.json'')
      then (case nd of Json r \<Rightarrow> if truthy r then [r] else [] | _ \<Rightarrow> [])
      else [])
     @ readable_records truthy entries"
  by (simp add: readable_records_def split: node.splits)

lemma get_all_loop_ok:
  assumes "\<forall>(filename, nd) \<in> set entries.
             str_endswith filename (str ''.json'') \<longrightarrow> nd \<noteq> Unreadable \<and> nd \<noteq> Corrupt"
  shows "get_all_loop truthy entries acc = Inr (acc @ readable_records truthy entries)"
  using assms
proof (induction entries arbitrary: acc)
  case Nil
  show ?case by (simp add: readable_records_Nil)
next
  case (Cons e entries)
  obtain filename nd where e: "e = (filename, nd)" by (cases e)
  from Cons.prems have rest:
    "\<forall>(filename, nd) \<in> set entries.
       str_endswith filename (str ''.json'') \<longrightarrow> nd \<noteq> Unreadable \<and> nd \<noteq> Corrupt"
    by simp
  from Cons.prems e have ok:
    "str_endswith filename (str ''.json'') \<longrightarrow> nd \<noteq> Unreadable \<and> nd \<noteq> Corrupt"
    by simp
  show ?case
    unfolding e using ok
    by (cases nd) (simp_all add: readable_records_Cons Cons.IH [OF rest] load_candidate_def)
qed

lemma get_all_loop_bad:
  assumes "\<exists>(filename, nd) \<in> set entries.
             str_endswith filename (str ''.json'') \<and> (nd = Unreadable \<or> nd = Corrupt)"
  shows "\<exists>e. get_all_loop truthy entries acc = Inl e"
  using assms
proof (induction entries arbitrary: acc)
  case Nil
  then show ?case by simp
next
  case (Cons e entries)
  obtain filename nd where e: "e = (filename, nd)" by (cases e)
  show ?case
  proof (cases "str_endswith filename (str ''.json'') \<and> (nd = Unreadable \<or> nd = Corrupt)")
    case True
    then show ?thesis by (auto simp: e load_candidate_def)
  next
    case False
    with Cons.prems e have
      "\<exists>(filename, nd) \<in> set entries.
         str_endswith filename (str ''.json'') \<and> (nd = Unreadable \<or> nd = Corrupt)"
      by auto
    from Cons.IH [OF this] have ih: "\<And>acc. \<exists>e. get_all_loop truthy entries acc = Inl e"
      by blast
    show ?thesis
      using False ih by (cases nd) (auto simp: e load_candidate_def)
  qed
qed

text \<open>
  C9, as the spec states it, fails: with one corrupt \<open>.json\<close> entry in the directory,
  \<open>get_all_candidates\<close> raises and returns no list.
\<close>

theorem corrupt_entry_counterexample:
  "get_all_candidates nonempty (Some (sample_directory @ [(str ''broken.json'', Corrupt)]))
     = Inl JSONDecodeError"
  by (simp add: get_all_candidates_def sample_directory_def nonempty_def load_candidate_def
        str_endswith_def str_def)

text \<open>
  C9, amended. \<open>get_all_candidates\<close> passes over the entries whose name does not end in
  \<open>.json\<close>, whatever they hold, the \<open>.json\<close> entries that no longer exist and those
  whose loaded value is falsy. When no \<open>.json\<close> entry is unreadable or corrupt it
  returns the remaining records in the order of the listing, without raising. When some
  \<open>.json\<close> entry is unreadable or corrupt it raises.
\<close>

theorem get_all_candidates_skips_or_raises:
  "((\<forall>(filename, nd) \<in> set entries.
        str_endswith filename (str ''.json'') \<longrightarrow> nd \<noteq> Unreadable \<and> nd \<noteq> Corrupt)
      \<longrightarrow> get_all_candidates truthy (Some entries) = Inr (readable_records truthy entries))
   \<and> ((\<exists>(filename, nd) \<in> set entries.
        str_endswith filename (str ''.json'') \<and> (nd = Unreadable \<or> nd = Corrupt))
      \<longrightarrow> (\<exists>e. get_all_candidates truthy (Some entries) = Inl e))"
  using get_all_loop_ok [of entries truthy "[]"] get_all_loop_bad [of entries truthy "[]"]
  by (simp add: get_all_candidates_def)

theorem get_all_candidates_skips_or_raises_witness:
  "get_all_candidates nonempty (Some sample_directory) = Inr [[(str ''name'', str ''Ada'')]]
   \<and> (\<exists>e. get_all_candidates nonempty (Some (sample_directory @ [(str ''unreadable.json'', Unreadable)]))
            = Inl e)"
proof -
  have ok: "\<forall>(filename, nd) \<in> set sample_directory.
              str_endswith filename (str ''.json'') \<longrightarrow> nd \<noteq> Unreadable \<and> nd \<noteq> Corrupt"
    by (simp add: sample_directory_def str_endswith_def str_def)
  have rr: "readable_records nonempty sample_directory = [[(str ''name'', str ''Ada'')]]"
    by (simp add: readable_records_def sample_directory_def nonempty_def str_endswith_def str_def)
  have bad: "\<exists>(filename, nd) \<in> set (sample_directory @ [(str ''unreadable.json'', Unreadable)]).
               str_endswith filename (str ''.json'') \<and> (nd = Unreadable \<or> nd = Corrupt)"
    by (simp add: str_endswith_def str_def)
  from get_all_candidates_skips_or_raises [of sample_directory nonempty] ok rr
  have a: "get_all_candidates nonempty (Some sample_directory) = Inr [[(str ''name'', str ''Ada'')]]"
    by simp
  from get_all_candidates_skips_or_raises
         [of "sample_directory @ [(str ''unreadable.json'', Unreadable)]" nonempty] bad
  have b: "\<exists>e. get_all_candidates nonempty
                  (Some (sample_directory @ [(str ''unreadable.json'', Unreadable)])) = Inl e"
    by blast
  from a b show ?thesis by blast
qed

section \<open>Saving a record\<close>

text \<open>
  C10. \<open>save_candidate\<close> changes the dictionary it is given: the dictionary it leaves
  behind is the argument with the key \<open>submission_time\<close> set to the current timestamp,
  every other key holding what it held. This is so whether or not the file is then
  written; when it is, the content stored at the returned path is that dictionary.
\<close>

theorem save_candidate_adds_submission_time:
  assumes "save_candidate u iso_now stamp_now d candidate = (candidate', d', r)"
  shows "candidate' = candidate(str ''submission_time'' \<mapsto> Inl iso_now)
       \<and> (\<forall>k. k \<noteq> (str ''submission_time'') \<longrightarrow> candidate' k = candidate k)
       \<and> (\<forall>path. r = Inr path \<longrightarrow> file_content d' path = Some candidate')"
  using assms
  by (auto simp: save_candidate_def Let_def split: sum.splits option.splits if_splits)

theorem save_candidate_adds_submission_time_witness:
  "save_candidate sample_tables (str ''2024-05-01T10:00:00'') (str ''20240501_100000'') empty_disk sample_record
     = (sample_record(str ''submission_time'' \<mapsto> Inl (str ''2024-05-01T10:00:00'')),
        empty_disk\<lparr>file_content :=
          [str ''data/candidates/ada_lovelace_20240501_100000.json''
             \<mapsto> sample_record(str ''submission_time'' \<mapsto> Inl (str ''2024-05-01T10:00:00''))]\<rparr>,
        Inr (str ''data/candidates/ada_lovelace_20240501_100000.json''))
   \<and> file_content
        (empty_disk\<lparr>file_content :=
           [str ''data/candidates/ada_lovelace_20240501_100000.json''
              \<mapsto> sample_record(str ''submission_time'' \<mapsto> Inl (str ''2024-05-01T10:00:00''))]\<rparr>)
        (str ''data/candidates/ada_lovelace_20240501_100000.json'')
       = Some (sample_record(str ''submission_time'' \<mapsto> Inl (str ''2024-05-01T10:00:00'')))"
proof (rule conjI)
  show sv: "save_candidate sample_tables (str ''2024-05-01T10:00:00'') (str ''20240501_100000'') empty_disk sample_record
     = (sample_record(str ''submission_time'' \<mapsto> Inl (str ''2024-05-01T10:00:00'')),
        empty_disk\<lparr>file_content :=
          [str ''data/candidates/ada_lovelace_20240501_100000.json''
             \<mapsto> sample_record(str ''submission_time'' \<mapsto> Inl (str ''2024-05-01T10:00:00''))]\<rparr>,
        Inr (str ''data/candidates/ada_lovelace_20240501_100000.json''))"
    by (simp add: save_candidate_def sample_record_def empty_disk_def Let_def os_path_join_def
          CANDIDATES_DIR_def str_replace_def str_eval)
  show "file_content
        (empty_disk\<lparr>file_content :=
           [str ''data/candidates/ada_lovelace_20240501_100000.json''
              \<mapsto> sample_record(str ''submission_time'' \<mapsto> Inl (str ''2024-05-01T10:00:00''))]\<rparr>)
        (str ''data/candidates/ada_lovelace_20240501_100000.json'')
       = Some (sample_record(str ''submission_time'' \<mapsto> Inl (str ''2024-05-01T10:00:00'')))"
    by (rule save_candidate_adds_submission_time
               [OF sv, THEN conjunct2, THEN conjunct2, rule_format, OF refl])
qed

section \<open>The conclusion\<close>















text \<open>
  The labelled reply run through the parser: the label is matched in any case, the later
  of two decision lines is the one kept, and the values are trimmed.
\<close>

lemma parse_decision_labelled_reply:
  "parse_decision sample_tables labelled_reply
     = Some (str ''SCREEN IN'', str ''Solid answers.'', str ''Well done.'')"
  by (simp add: parse_decision_def labelled_reply_def split_once_second_def str_eval)




section \<open>The last answer\<close>







end
